theory Spec2Isabelle
  imports Main
begin

section \<open>JavaScript values\<close>

text \<open>
  The values that cross the library's interfaces: the opaque \<open>details\<close> payload
  (\<open>unknown\<close> in the source) and the records handed to \<open>res.json\<close>. \<open>JUndefined\<close>
  is JavaScript's \<open>undefined\<close>, the value of an optional property that was not given.
  Numbers are integers here: the only numbers the library itself produces are status codes.
  An object is its properties in insertion order.
\<close>

datatype jsval =
    JUndefined
  | JNull
  | JBool bool
  | JNum int
  | JStr string
  | JArr "jsval list"
  | JObj "(string \<times> jsval) list"

type_synonym jsobj = "(string \<times> jsval) list"

text \<open>
  \<open>a || b\<close> where \<open>a\<close> has type \<open>string | undefined\<close>: \<open>undefined\<close> and the empty
  string are the falsy values of that type.
\<close>

definition js_or :: "string option \<Rightarrow> string \<Rightarrow> string" where
  "js_or a b = (case a of None \<Rightarrow> b | Some s \<Rightarrow> if s = [] then b else s)"

section \<open>core/types.ts\<close>

text \<open>
  \<open>interface HttpErrorOptions { code?: string; details?: unknown }\<close>. An absent
  \<open>code\<close> is \<open>None\<close>, an absent \<open>details\<close> is \<open>JUndefined\<close>.
\<close>

record HttpErrorOptions =
  code :: "string option"
  details :: jsval

section \<open>core/status-codes.ts\<close>

text \<open>
  Modelled from the spec: the file \<open>core/status-codes.ts\<close> with the constants
  \<open>HttpStatusCode.*\<close> is not among the sources. Each constant is given the status of the
  row of the spec's table (section 6) whose factory \<open>core/factories.ts\<close> builds from it.
\<close>

definition HttpStatusCode_CONTINUE :: int where
  "HttpStatusCode_CONTINUE = 100"

definition HttpStatusCode_SWITCHING_PROTOCOLS :: int where
  "HttpStatusCode_SWITCHING_PROTOCOLS = 101"

definition HttpStatusCode_PROCESSING :: int where
  "HttpStatusCode_PROCESSING = 102"

definition HttpStatusCode_EARLY_HINTS :: int where
  "HttpStatusCode_EARLY_HINTS = 103"

definition HttpStatusCode_OK :: int where
  "HttpStatusCode_OK = 200"

definition HttpStatusCode_CREATED :: int where
  "HttpStatusCode_CREATED = 201"

definition HttpStatusCode_ACCEPTED :: int where
  "HttpStatusCode_ACCEPTED = 202"

definition HttpStatusCode_NON_AUTHORITATIVE_INFORMATION :: int where
  "HttpStatusCode_NON_AUTHORITATIVE_INFORMATION = 203"

definition HttpStatusCode_NO_CONTENT :: int where
  "HttpStatusCode_NO_CONTENT = 204"

definition HttpStatusCode_RESET_CONTENT :: int where
  "HttpStatusCode_RESET_CONTENT = 205"

definition HttpStatusCode_PARTIAL_CONTENT :: int where
  "HttpStatusCode_PARTIAL_CONTENT = 206"

definition HttpStatusCode_MULTI_STATUS :: int where
  "HttpStatusCode_MULTI_STATUS = 207"

definition HttpStatusCode_ALREADY_REPORTED :: int where
  "HttpStatusCode_ALREADY_REPORTED = 208"

definition HttpStatusCode_IM_USED :: int where
  "HttpStatusCode_IM_USED = 226"

definition HttpStatusCode_MULTIPLE_CHOICES :: int where
  "HttpStatusCode_MULTIPLE_CHOICES = 300"

definition HttpStatusCode_MOVED_PERMANENTLY :: int where
  "HttpStatusCode_MOVED_PERMANENTLY = 301"

definition HttpStatusCode_FOUND :: int where
  "HttpStatusCode_FOUND = 302"

definition HttpStatusCode_SEE_OTHER :: int where
  "HttpStatusCode_SEE_OTHER = 303"

definition HttpStatusCode_NOT_MODIFIED :: int where
  "HttpStatusCode_NOT_MODIFIED = 304"

definition HttpStatusCode_USE_PROXY :: int where
  "HttpStatusCode_USE_PROXY = 305"

definition HttpStatusCode_TEMPORARY_REDIRECT :: int where
  "HttpStatusCode_TEMPORARY_REDIRECT = 307"

definition HttpStatusCode_PERMANENT_REDIRECT :: int where
  "HttpStatusCode_PERMANENT_REDIRECT = 308"

definition HttpStatusCode_BAD_REQUEST :: int where
  "HttpStatusCode_BAD_REQUEST = 400"

definition HttpStatusCode_UNAUTHORIZED :: int where
  "HttpStatusCode_UNAUTHORIZED = 401"

definition HttpStatusCode_PAYMENT_REQUIRED :: int where
  "HttpStatusCode_PAYMENT_REQUIRED = 402"

definition HttpStatusCode_FORBIDDEN :: int where
  "HttpStatusCode_FORBIDDEN = 403"

definition HttpStatusCode_NOT_FOUND :: int where
  "HttpStatusCode_NOT_FOUND = 404"

definition HttpStatusCode_METHOD_NOT_ALLOWED :: int where
  "HttpStatusCode_METHOD_NOT_ALLOWED = 405"

definition HttpStatusCode_NOT_ACCEPTABLE :: int where
  "HttpStatusCode_NOT_ACCEPTABLE = 406"

definition HttpStatusCode_PROXY_AUTHENTICATION_REQUIRED :: int where
  "HttpStatusCode_PROXY_AUTHENTICATION_REQUIRED = 407"

definition HttpStatusCode_REQUEST_TIMEOUT :: int where
  "HttpStatusCode_REQUEST_TIMEOUT = 408"

definition HttpStatusCode_CONFLICT :: int where
  "HttpStatusCode_CONFLICT = 409"

definition HttpStatusCode_GONE :: int where
  "HttpStatusCode_GONE = 410"

definition HttpStatusCode_LENGTH_REQUIRED :: int where
  "HttpStatusCode_LENGTH_REQUIRED = 411"

definition HttpStatusCode_PRECONDITION_FAILED :: int where
  "HttpStatusCode_PRECONDITION_FAILED = 412"

definition HttpStatusCode_PAYLOAD_TOO_LARGE :: int where
  "HttpStatusCode_PAYLOAD_TOO_LARGE = 413"

definition HttpStatusCode_URI_TOO_LONG :: int where
  "HttpStatusCode_URI_TOO_LONG = 414"

definition HttpStatusCode_UNSUPPORTED_MEDIA_TYPE :: int where
  "HttpStatusCode_UNSUPPORTED_MEDIA_TYPE = 415"

definition HttpStatusCode_RANGE_NOT_SATISFIABLE :: int where
  "HttpStatusCode_RANGE_NOT_SATISFIABLE = 416"

definition HttpStatusCode_EXPECTATION_FAILED :: int where
  "HttpStatusCode_EXPECTATION_FAILED = 417"

definition HttpStatusCode_IM_A_TEAPOT :: int where
  "HttpStatusCode_IM_A_TEAPOT = 418"

definition HttpStatusCode_MISDIRECTED_REQUEST :: int where
  "HttpStatusCode_MISDIRECTED_REQUEST = 421"

definition HttpStatusCode_UNPROCESSABLE_ENTITY :: int where
  "HttpStatusCode_UNPROCESSABLE_ENTITY = 422"

definition HttpStatusCode_LOCKED :: int where
  "HttpStatusCode_LOCKED = 423"

definition HttpStatusCode_FAILED_DEPENDENCY :: int where
  "HttpStatusCode_FAILED_DEPENDENCY = 424"

definition HttpStatusCode_TOO_EARLY :: int where
  "HttpStatusCode_TOO_EARLY = 425"

definition HttpStatusCode_UPGRADE_REQUIRED :: int where
  "HttpStatusCode_UPGRADE_REQUIRED = 426"

definition HttpStatusCode_PRECONDITION_REQUIRED :: int where
  "HttpStatusCode_PRECONDITION_REQUIRED = 428"

definition HttpStatusCode_TOO_MANY_REQUESTS :: int where
  "HttpStatusCode_TOO_MANY_REQUESTS = 429"

definition HttpStatusCode_REQUEST_HEADER_FIELDS_TOO_LARGE :: int where
  "HttpStatusCode_REQUEST_HEADER_FIELDS_TOO_LARGE = 431"

definition HttpStatusCode_UNAVAILABLE_FOR_LEGAL_REASONS :: int where
  "HttpStatusCode_UNAVAILABLE_FOR_LEGAL_REASONS = 451"

definition HttpStatusCode_INTERNAL_SERVER_ERROR :: int where
  "HttpStatusCode_INTERNAL_SERVER_ERROR = 500"

definition HttpStatusCode_NOT_IMPLEMENTED :: int where
  "HttpStatusCode_NOT_IMPLEMENTED = 501"

definition HttpStatusCode_BAD_GATEWAY :: int where
  "HttpStatusCode_BAD_GATEWAY = 502"

definition HttpStatusCode_SERVICE_UNAVAILABLE :: int where
  "HttpStatusCode_SERVICE_UNAVAILABLE = 503"

definition HttpStatusCode_GATEWAY_TIMEOUT :: int where
  "HttpStatusCode_GATEWAY_TIMEOUT = 504"

definition HttpStatusCode_HTTP_VERSION_NOT_SUPPORTED :: int where
  "HttpStatusCode_HTTP_VERSION_NOT_SUPPORTED = 505"

definition HttpStatusCode_VARIANT_ALSO_NEGOTIATES :: int where
  "HttpStatusCode_VARIANT_ALSO_NEGOTIATES = 506"

definition HttpStatusCode_INSUFFICIENT_STORAGE :: int where
  "HttpStatusCode_INSUFFICIENT_STORAGE = 507"

definition HttpStatusCode_LOOP_DETECTED :: int where
  "HttpStatusCode_LOOP_DETECTED = 508"

definition HttpStatusCode_NOT_EXTENDED :: int where
  "HttpStatusCode_NOT_EXTENDED = 510"

definition HttpStatusCode_NETWORK_AUTHENTICATION_REQUIRED :: int where
  "HttpStatusCode_NETWORK_AUTHENTICATION_REQUIRED = 511"

text \<open>
  Modelled from the spec: the table \<open>HttpStatusMessage\<close> of \<open>core/status-codes.ts\<close> is
  not among the sources. It is the Status Registry of the spec: the status and reason
  phrase of each of the 62 rows of section 6. \<open>HttpStatusMessage[status]\<close> is
  \<open>map_of HttpStatusMessage status\<close>, \<open>None\<close> for a status that has no entry.
\<close>

definition HttpStatusMessage :: "(int \<times> string) list" where
  "HttpStatusMessage =
    [
     (100, ''Continue''),
     (101, ''Switching Protocols''),
     (102, ''Processing''),
     (103, ''Early Hints''),
     (200, ''OK''),
     (201, ''Created''),
     (202, ''Accepted''),
     (203, ''Non-Authoritative Information''),
     (204, ''No Content''),
     (205, ''Reset Content''),
     (206, ''Partial Content''),
     (207, ''Multi-Status''),
     (208, ''Already Reported''),
     (226, ''IM Used''),
     (300, ''Multiple Choices''),
     (301, ''Moved Permanently''),
     (302, ''Found''),
     (303, ''See Other''),
     (304, ''Not Modified''),
     (305, ''Use Proxy''),
     (307, ''Temporary Redirect''),
     (308, ''Permanent Redirect''),
     (400, ''Bad Request''),
     (401, ''Unauthorized''),
     (402, ''Payment Required''),
     (403, ''Forbidden''),
     (404, ''Not Found''),
     (405, ''Method Not Allowed''),
     (406, ''Not Acceptable''),
     (407, ''Proxy Authentication Required''),
     (408, ''Request Timeout''),
     (409, ''Conflict''),
     (410, ''Gone''),
     (411, ''Length Required''),
     (412, ''Precondition Failed''),
     (413, ''Payload Too Large''),
     (414, ''URI Too Long''),
     (415, ''Unsupported Media Type''),
     (416, ''Range Not Satisfiable''),
     (417, ''Expectation Failed''),
     (418, ''I'm a teapot''),
     (421, ''Misdirected Request''),
     (422, ''Unprocessable Entity''),
     (423, ''Locked''),
     (424, ''Failed Dependency''),
     (425, ''Too Early''),
     (426, ''Upgrade Required''),
     (428, ''Precondition Required''),
     (429, ''Too Many Requests''),
     (431, ''Request Header Fields Too Large''),
     (451, ''Unavailable For Legal Reasons''),
     (500, ''Internal Server Error''),
     (501, ''Not Implemented''),
     (502, ''Bad Gateway''),
     (503, ''Service Unavailable''),
     (504, ''Gateway Timeout''),
     (505, ''HTTP Version Not Supported''),
     (506, ''Variant Also Negotiates''),
     (507, ''Insufficient Storage''),
     (508, ''Loop Detected''),
     (510, ''Not Extended''),
     (511, ''Network Authentication Required'')
    ]"

section \<open>core/http-error.ts\<close>

text \<open>
  \<open>class HttpError extends Error\<close>. The fields of the native \<open>Error\<close> are \<open>name\<close>,
  \<open>message\<close> and the optional \<open>stack\<close>; \<open>HttpError\<close> adds \<open>status\<close>, \<open>code\<close> and
  \<open>details\<close>.
\<close>

record Error =
  name :: string
  message :: string
  stack :: "string option"

record HttpError = Error +
  status :: int
  code :: "string option"
  details :: jsval

text \<open>
  The constructor. \<open>super(message)\<close> stores the message, \<open>this.name\<close> is set to
  \<open>'HttpError'\<close>, \<open>options?.code\<close> and \<open>options?.details\<close> are \<open>undefined\<close> when
  \<open>options\<close> is. The stack trace is what the runtime captures at the construction site
  (\<open>Error.captureStackTrace\<close>); it is the first argument of the model.
\<close>

definition HttpError_new ::
  "string option \<Rightarrow> int \<Rightarrow> string \<Rightarrow> HttpErrorOptions option \<Rightarrow> HttpError" where
  "HttpError_new captured status' message' options =
     \<lparr> name = ''HttpError'',
       message = message',
       stack = captured,
       status = status',
       code = (case options of None \<Rightarrow> None | Some opt \<Rightarrow> HttpErrorOptions.code opt),
       details = (case options of None \<Rightarrow> JUndefined | Some opt \<Rightarrow> HttpErrorOptions.details opt) \<rparr>"

text \<open>
  \<open>toJSON\<close>: the object starts with \<open>status\<close> and \<open>message\<close>; \<open>code\<close> and \<open>details\<close>
  are assigned only when they are not \<open>undefined\<close>.
\<close>

definition toJSON :: "HttpError \<Rightarrow> jsobj" where
  "toJSON this =
     (let json = [(''status'', JNum (status this)), (''message'', JStr (message this))];
          json = (case code this of None \<Rightarrow> json | Some c \<Rightarrow> json @ [(''code'', JStr c)]);
          json = (if details this \<noteq> JUndefined then json @ [(''details'', details this)] else json)
      in json)"

definition getDefaultMessage :: "int \<Rightarrow> string" where
  "getDefaultMessage status' = js_or (map_of HttpStatusMessage status') ''Unknown Error''"

section \<open>core/factories.ts\<close>

text \<open>
  An \<open>ErrorFactory\<close> takes the optional message and the optional options; the first
  argument of the model is the stack trace captured by the constructor it calls.
\<close>

type_synonym ErrorFactory =
  "string option \<Rightarrow> string option \<Rightarrow> HttpErrorOptions option \<Rightarrow> HttpError"

definition createFactory :: "int \<Rightarrow> ErrorFactory" where
  "createFactory status' captured message' options =
     (let errorMessage = js_or message' (getDefaultMessage status')
      in HttpError_new captured status' errorMessage options)"

definition continueError :: ErrorFactory where
  "continueError = createFactory HttpStatusCode_CONTINUE"

definition switchingProtocols :: ErrorFactory where
  "switchingProtocols = createFactory HttpStatusCode_SWITCHING_PROTOCOLS"

definition processing :: ErrorFactory where
  "processing = createFactory HttpStatusCode_PROCESSING"

definition earlyHints :: ErrorFactory where
  "earlyHints = createFactory HttpStatusCode_EARLY_HINTS"

definition ok :: ErrorFactory where
  "ok = createFactory HttpStatusCode_OK"

definition created :: ErrorFactory where
  "created = createFactory HttpStatusCode_CREATED"

definition accepted :: ErrorFactory where
  "accepted = createFactory HttpStatusCode_ACCEPTED"

definition nonAuthoritativeInformation :: ErrorFactory where
  "nonAuthoritativeInformation = createFactory HttpStatusCode_NON_AUTHORITATIVE_INFORMATION"

definition noContent :: ErrorFactory where
  "noContent = createFactory HttpStatusCode_NO_CONTENT"

definition resetContent :: ErrorFactory where
  "resetContent = createFactory HttpStatusCode_RESET_CONTENT"

definition partialContent :: ErrorFactory where
  "partialContent = createFactory HttpStatusCode_PARTIAL_CONTENT"

definition multiStatus :: ErrorFactory where
  "multiStatus = createFactory HttpStatusCode_MULTI_STATUS"

definition alreadyReported :: ErrorFactory where
  "alreadyReported = createFactory HttpStatusCode_ALREADY_REPORTED"

definition imUsed :: ErrorFactory where
  "imUsed = createFactory HttpStatusCode_IM_USED"

definition multipleChoices :: ErrorFactory where
  "multipleChoices = createFactory HttpStatusCode_MULTIPLE_CHOICES"

definition movedPermanently :: ErrorFactory where
  "movedPermanently = createFactory HttpStatusCode_MOVED_PERMANENTLY"

definition found :: ErrorFactory where
  "found = createFactory HttpStatusCode_FOUND"

definition seeOther :: ErrorFactory where
  "seeOther = createFactory HttpStatusCode_SEE_OTHER"

definition notModified :: ErrorFactory where
  "notModified = createFactory HttpStatusCode_NOT_MODIFIED"

definition useProxy :: ErrorFactory where
  "useProxy = createFactory HttpStatusCode_USE_PROXY"

definition temporaryRedirect :: ErrorFactory where
  "temporaryRedirect = createFactory HttpStatusCode_TEMPORARY_REDIRECT"

definition permanentRedirect :: ErrorFactory where
  "permanentRedirect = createFactory HttpStatusCode_PERMANENT_REDIRECT"

definition badRequest :: ErrorFactory where
  "badRequest = createFactory HttpStatusCode_BAD_REQUEST"

definition unauthorized :: ErrorFactory where
  "unauthorized = createFactory HttpStatusCode_UNAUTHORIZED"

definition paymentRequired :: ErrorFactory where
  "paymentRequired = createFactory HttpStatusCode_PAYMENT_REQUIRED"

definition forbidden :: ErrorFactory where
  "forbidden = createFactory HttpStatusCode_FORBIDDEN"

definition notFound :: ErrorFactory where
  "notFound = createFactory HttpStatusCode_NOT_FOUND"

definition methodNotAllowed :: ErrorFactory where
  "methodNotAllowed = createFactory HttpStatusCode_METHOD_NOT_ALLOWED"

definition notAcceptable :: ErrorFactory where
  "notAcceptable = createFactory HttpStatusCode_NOT_ACCEPTABLE"

definition proxyAuthenticationRequired :: ErrorFactory where
  "proxyAuthenticationRequired = createFactory HttpStatusCode_PROXY_AUTHENTICATION_REQUIRED"

definition requestTimeout :: ErrorFactory where
  "requestTimeout = createFactory HttpStatusCode_REQUEST_TIMEOUT"

definition conflict :: ErrorFactory where
  "conflict = createFactory HttpStatusCode_CONFLICT"

definition gone :: ErrorFactory where
  "gone = createFactory HttpStatusCode_GONE"

definition lengthRequired :: ErrorFactory where
  "lengthRequired = createFactory HttpStatusCode_LENGTH_REQUIRED"

definition preconditionFailed :: ErrorFactory where
  "preconditionFailed = createFactory HttpStatusCode_PRECONDITION_FAILED"

definition payloadTooLarge :: ErrorFactory where
  "payloadTooLarge = createFactory HttpStatusCode_PAYLOAD_TOO_LARGE"

definition uriTooLong :: ErrorFactory where
  "uriTooLong = createFactory HttpStatusCode_URI_TOO_LONG"

definition unsupportedMediaType :: ErrorFactory where
  "unsupportedMediaType = createFactory HttpStatusCode_UNSUPPORTED_MEDIA_TYPE"

definition rangeNotSatisfiable :: ErrorFactory where
  "rangeNotSatisfiable = createFactory HttpStatusCode_RANGE_NOT_SATISFIABLE"

definition expectationFailed :: ErrorFactory where
  "expectationFailed = createFactory HttpStatusCode_EXPECTATION_FAILED"

definition imATeapot :: ErrorFactory where
  "imATeapot = createFactory HttpStatusCode_IM_A_TEAPOT"

definition misdirectedRequest :: ErrorFactory where
  "misdirectedRequest = createFactory HttpStatusCode_MISDIRECTED_REQUEST"

definition unprocessableEntity :: ErrorFactory where
  "unprocessableEntity = createFactory HttpStatusCode_UNPROCESSABLE_ENTITY"

definition locked :: ErrorFactory where
  "locked = createFactory HttpStatusCode_LOCKED"

definition failedDependency :: ErrorFactory where
  "failedDependency = createFactory HttpStatusCode_FAILED_DEPENDENCY"

definition tooEarly :: ErrorFactory where
  "tooEarly = createFactory HttpStatusCode_TOO_EARLY"

definition upgradeRequired :: ErrorFactory where
  "upgradeRequired = createFactory HttpStatusCode_UPGRADE_REQUIRED"

definition preconditionRequired :: ErrorFactory where
  "preconditionRequired = createFactory HttpStatusCode_PRECONDITION_REQUIRED"

definition tooManyRequests :: ErrorFactory where
  "tooManyRequests = createFactory HttpStatusCode_TOO_MANY_REQUESTS"

definition requestHeaderFieldsTooLarge :: ErrorFactory where
  "requestHeaderFieldsTooLarge = createFactory HttpStatusCode_REQUEST_HEADER_FIELDS_TOO_LARGE"

definition unavailableForLegalReasons :: ErrorFactory where
  "unavailableForLegalReasons = createFactory HttpStatusCode_UNAVAILABLE_FOR_LEGAL_REASONS"

definition internalServerError :: ErrorFactory where
  "internalServerError = createFactory HttpStatusCode_INTERNAL_SERVER_ERROR"

definition notImplemented :: ErrorFactory where
  "notImplemented = createFactory HttpStatusCode_NOT_IMPLEMENTED"

definition badGateway :: ErrorFactory where
  "badGateway = createFactory HttpStatusCode_BAD_GATEWAY"

definition serviceUnavailable :: ErrorFactory where
  "serviceUnavailable = createFactory HttpStatusCode_SERVICE_UNAVAILABLE"

definition gatewayTimeout :: ErrorFactory where
  "gatewayTimeout = createFactory HttpStatusCode_GATEWAY_TIMEOUT"

definition httpVersionNotSupported :: ErrorFactory where
  "httpVersionNotSupported = createFactory HttpStatusCode_HTTP_VERSION_NOT_SUPPORTED"

definition variantAlsoNegotiates :: ErrorFactory where
  "variantAlsoNegotiates = createFactory HttpStatusCode_VARIANT_ALSO_NEGOTIATES"

definition insufficientStorage :: ErrorFactory where
  "insufficientStorage = createFactory HttpStatusCode_INSUFFICIENT_STORAGE"

definition loopDetected :: ErrorFactory where
  "loopDetected = createFactory HttpStatusCode_LOOP_DETECTED"

definition notExtended :: ErrorFactory where
  "notExtended = createFactory HttpStatusCode_NOT_EXTENDED"

definition networkAuthenticationRequired :: ErrorFactory where
  "networkAuthenticationRequired = createFactory HttpStatusCode_NETWORK_AUTHENTICATION_REQUIRED"

section \<open>index.ts\<close>

text \<open>The \<open>obsidian\<close> object: its keys and the factory bound to each, in the source's order.\<close>

definition obsidian :: "(string \<times> ErrorFactory) list" where
  "obsidian =
    [
     (''continue'', continueError),
     (''switchingProtocols'', switchingProtocols),
     (''processing'', processing),
     (''earlyHints'', earlyHints),
     (''ok'', ok),
     (''created'', created),
     (''accepted'', accepted),
     (''nonAuthoritativeInformation'', nonAuthoritativeInformation),
     (''noContent'', noContent),
     (''resetContent'', resetContent),
     (''partialContent'', partialContent),
     (''multiStatus'', multiStatus),
     (''alreadyReported'', alreadyReported),
     (''imUsed'', imUsed),
     (''multipleChoices'', multipleChoices),
     (''movedPermanently'', movedPermanently),
     (''found'', found),
     (''seeOther'', seeOther),
     (''notModified'', notModified),
     (''useProxy'', useProxy),
     (''temporaryRedirect'', temporaryRedirect),
     (''permanentRedirect'', permanentRedirect),
     (''badRequest'', badRequest),
     (''unauthorized'', unauthorized),
     (''paymentRequired'', paymentRequired),
     (''forbidden'', forbidden),
     (''notFound'', notFound),
     (''methodNotAllowed'', methodNotAllowed),
     (''notAcceptable'', notAcceptable),
     (''proxyAuthenticationRequired'', proxyAuthenticationRequired),
     (''requestTimeout'', requestTimeout),
     (''conflict'', conflict),
     (''gone'', gone),
     (''lengthRequired'', lengthRequired),
     (''preconditionFailed'', preconditionFailed),
     (''payloadTooLarge'', payloadTooLarge),
     (''uriTooLong'', uriTooLong),
     (''unsupportedMediaType'', unsupportedMediaType),
     (''rangeNotSatisfiable'', rangeNotSatisfiable),
     (''expectationFailed'', expectationFailed),
     (''imATeapot'', imATeapot),
     (''misdirectedRequest'', misdirectedRequest),
     (''unprocessableEntity'', unprocessableEntity),
     (''locked'', locked),
     (''failedDependency'', failedDependency),
     (''tooEarly'', tooEarly),
     (''upgradeRequired'', upgradeRequired),
     (''preconditionRequired'', preconditionRequired),
     (''tooManyRequests'', tooManyRequests),
     (''requestHeaderFieldsTooLarge'', requestHeaderFieldsTooLarge),
     (''unavailableForLegalReasons'', unavailableForLegalReasons),
     (''internalServerError'', internalServerError),
     (''badGateway'', badGateway),
     (''serviceUnavailable'', serviceUnavailable),
     (''gatewayTimeout'', gatewayTimeout),
     (''notImplemented'', notImplemented),
     (''httpVersionNotSupported'', httpVersionNotSupported),
     (''variantAlsoNegotiates'', variantAlsoNegotiates),
     (''insufficientStorage'', insufficientStorage),
     (''loopDetected'', loopDetected),
     (''notExtended'', notExtended),
     (''networkAuthenticationRequired'', networkAuthenticationRequired)
    ]"

section \<open>adapters/express.ts\<close>

text \<open>
  A raised value that is not an \<open>HttpError\<close>. The annotation \<open>err: Error\<close> is erased
  when the program runs, and the host passes the middleware whatever was thrown: a
  native error or any other object (its readable properties), an array, or a primitive.
  Express calls an error middleware only for a truthy value, so \<open>null\<close> and \<open>undefined\<close>,
  the two values on which a property read would itself raise, never arrive and have no
  constructor here.
\<close>

datatype thrown =
    ThrownBool bool
  | ThrownNum int
  | ThrownStr string
  | ThrownArr "jsval list"
  | ThrownObj jsobj

text \<open>
  The property read \<open>err.k\<close>, for the two names the middleware reads, \<open>message\<close> and
  \<open>stack\<close>: an object yields the property, \<open>undefined\<close> when it has none; a primitive
  or an array has neither property.
\<close>

fun get_prop :: "thrown \<Rightarrow> string \<Rightarrow> jsval" where
  "get_prop (ThrownObj props) k = (case map_of props k of None \<Rightarrow> JUndefined | Some v \<Rightarrow> v)"
| "get_prop (ThrownBool b) k = JUndefined"
| "get_prop (ThrownNum n) k = JUndefined"
| "get_prop (ThrownStr s) k = JUndefined"
| "get_prop (ThrownArr xs) k = JUndefined"

text \<open>A native \<open>Error\<close> as a raised value: an object with its three fields.\<close>

definition native_error :: "Error \<Rightarrow> thrown" where
  "native_error x =
     ThrownObj ([(''name'', JStr (name x)), (''message'', JStr (message x))] @
                (case stack x of None \<Rightarrow> [] | Some s \<Rightarrow> [(''stack'', JStr s)]))"

text \<open>
  What a route handler raised, as the middleware sees it: the test
  \<open>err instanceof HttpError\<close> separates the two cases.
\<close>

datatype raised = IsHttpError HttpError | OtherError thrown

text \<open>
  The effects of a middleware, in the order they happen: a call of the configured
  logger with its two arguments, \<open>res.status(n)\<close>, \<open>res.json(body)\<close> and \<open>next(err)\<close>.
  The request is opaque to the middleware.
\<close>

datatype 'req event =
    LoggerCall raised 'req
  | ResStatus int
  | ResJson jsobj
  | NextCall raised

text \<open>
  \<open>interface ExpressErrorHandlerOptions\<close>. The logger returns nothing: all that the
  middleware contributes is the call, which the trace records. The transform is a
  function from the error to the record to send. Both are the functions their types
  declare: a callback that raises is outside the middleware's contract and not modelled.
\<close>

record 'req ExpressErrorHandlerOptions =
  includeStack :: "bool option"
  logger :: "(raised \<Rightarrow> 'req \<Rightarrow> unit) option"
  transform :: "(HttpError \<Rightarrow> jsobj) option"

text \<open>
  \<open>errorHandler\<close>. \<open>NODE_ENV\<close> is the value of \<open>process.env.NODE_ENV\<close> when the
  middleware is built (\<open>None\<close> when unset). The parameter \<open>options\<close> defaults to the
  empty object when it is not given.
\<close>

definition options_or_default ::
  "'req ExpressErrorHandlerOptions option \<Rightarrow> 'req ExpressErrorHandlerOptions" where
  "options_or_default options =
     (case options of
        None \<Rightarrow> \<lparr> includeStack = None, logger = None, transform = None \<rparr>
      | Some opt \<Rightarrow> opt)"

text \<open>
  The destructuring default of \<open>includeStack\<close>:
  \<open>process.env.NODE_ENV !== 'production'\<close> when the option is not given.
\<close>

definition includeStack_or_default :: "string option \<Rightarrow> bool option \<Rightarrow> bool" where
  "includeStack_or_default NODE_ENV given =
     (case given of None \<Rightarrow> NODE_ENV \<noteq> Some ''production'' | Some b \<Rightarrow> b)"

definition errorHandler ::
  "string option \<Rightarrow> 'req ExpressErrorHandlerOptions option \<Rightarrow> raised \<Rightarrow> 'req \<Rightarrow> 'req event list" where
  "errorHandler NODE_ENV options err req =
     (let opts = options_or_default options;
          includeStack' = includeStack_or_default NODE_ENV (includeStack opts);
          logged = (case logger opts of None \<Rightarrow> [] | Some l \<Rightarrow> [LoggerCall err req])
      in logged @
         (case err of
            IsHttpError e \<Rightarrow>
              (let response = (case transform opts of Some t \<Rightarrow> t e | None \<Rightarrow> toJSON e)
               in [ResStatus (status e), ResJson response])
          | OtherError x \<Rightarrow>
              if \<not> includeStack' then
                [ResStatus 500,
                 ResJson [(''status'', JNum 500), (''message'', JStr ''Internal Server Error'')]]
              else
                [ResStatus 500,
                 ResJson [(''status'', JNum 500),
                          (''message'', get_prop x ''message''),
                          (''stack'', get_prop x ''stack'')]]))"

definition simpleErrorHandler :: "raised \<Rightarrow> 'req \<Rightarrow> 'req event list" where
  "simpleErrorHandler err req =
     (case err of
        IsHttpError e \<Rightarrow> [ResStatus (status e), ResJson (toJSON e)]
      | OtherError x \<Rightarrow> [NextCall err])"

section \<open>Reading a trace\<close>

text \<open>
  The responses a trace writes: \<open>res.status\<close> sets the status code of the response
  object (200 until set) and \<open>res.json\<close> sends a body with the code current at that point.
  The trace holds the calls the middleware makes on \<open>res\<close>; how the host framework
  puts a status code or a body on the wire is not part of the library.
\<close>

fun responses :: "int \<Rightarrow> 'req event list \<Rightarrow> (int \<times> jsobj) list" where
  "responses sc [] = []"
| "responses sc (ResStatus n # es) = responses n es"
| "responses sc (ResJson body # es) = (sc, body) # responses sc es"
| "responses sc (LoggerCall e r # es) = responses sc es"
| "responses sc (NextCall e # es) = responses sc es"

definition written :: "'req event list \<Rightarrow> (int \<times> jsobj) list" where
  "written tr = responses 200 tr"

fun logger_calls :: "'req event list \<Rightarrow> (raised \<times> 'req) list" where
  "logger_calls [] = []"
| "logger_calls (LoggerCall e r # es) = (e, r) # logger_calls es"
| "logger_calls (ResStatus n # es) = logger_calls es"
| "logger_calls (ResJson body # es) = logger_calls es"
| "logger_calls (NextCall e # es) = logger_calls es"

fun next_calls :: "'req event list \<Rightarrow> raised list" where
  "next_calls [] = []"
| "next_calls (NextCall e # es) = e # next_calls es"
| "next_calls (LoggerCall e r # es) = next_calls es"
| "next_calls (ResStatus n # es) = next_calls es"
| "next_calls (ResJson body # es) = next_calls es"

fun is_response_event :: "'req event \<Rightarrow> bool" where
  "is_response_event (ResStatus n) = True"
| "is_response_event (ResJson body) = True"
| "is_response_event (LoggerCall e r) = False"
| "is_response_event (NextCall e) = False"

text \<open>The keys of a record.\<close>

definition keys :: "jsobj \<Rightarrow> string set" where
  "keys obj = fst ` set obj"

section \<open>The factory table of the specification\<close>

text \<open>
  Modelled from the spec: the rows (status, factory name, reason phrase) of the table in
  section 6, in the table's order.
\<close>

definition factory_table :: "(int \<times> string \<times> string) list" where
  "factory_table =
    [
     (100, ''continue'', ''Continue''),
     (101, ''switchingProtocols'', ''Switching Protocols''),
     (102, ''processing'', ''Processing''),
     (103, ''earlyHints'', ''Early Hints''),
     (200, ''ok'', ''OK''),
     (201, ''created'', ''Created''),
     (202, ''accepted'', ''Accepted''),
     (203, ''nonAuthoritativeInformation'', ''Non-Authoritative Information''),
     (204, ''noContent'', ''No Content''),
     (205, ''resetContent'', ''Reset Content''),
     (206, ''partialContent'', ''Partial Content''),
     (207, ''multiStatus'', ''Multi-Status''),
     (208, ''alreadyReported'', ''Already Reported''),
     (226, ''imUsed'', ''IM Used''),
     (300, ''multipleChoices'', ''Multiple Choices''),
     (301, ''movedPermanently'', ''Moved Permanently''),
     (302, ''found'', ''Found''),
     (303, ''seeOther'', ''See Other''),
     (304, ''notModified'', ''Not Modified''),
     (305, ''useProxy'', ''Use Proxy''),
     (307, ''temporaryRedirect'', ''Temporary Redirect''),
     (308, ''permanentRedirect'', ''Permanent Redirect''),
     (400, ''badRequest'', ''Bad Request''),
     (401, ''unauthorized'', ''Unauthorized''),
     (402, ''paymentRequired'', ''Payment Required''),
     (403, ''forbidden'', ''Forbidden''),
     (404, ''notFound'', ''Not Found''),
     (405, ''methodNotAllowed'', ''Method Not Allowed''),
     (406, ''notAcceptable'', ''Not Acceptable''),
     (407, ''proxyAuthenticationRequired'', ''Proxy Authentication Required''),
     (408, ''requestTimeout'', ''Request Timeout''),
     (409, ''conflict'', ''Conflict''),
     (410, ''gone'', ''Gone''),
     (411, ''lengthRequired'', ''Length Required''),
     (412, ''preconditionFailed'', ''Precondition Failed''),
     (413, ''payloadTooLarge'', ''Payload Too Large''),
     (414, ''uriTooLong'', ''URI Too Long''),
     (415, ''unsupportedMediaType'', ''Unsupported Media Type''),
     (416, ''rangeNotSatisfiable'', ''Range Not Satisfiable''),
     (417, ''expectationFailed'', ''Expectation Failed''),
     (418, ''imATeapot'', ''I'm a teapot''),
     (421, ''misdirectedRequest'', ''Misdirected Request''),
     (422, ''unprocessableEntity'', ''Unprocessable Entity''),
     (423, ''locked'', ''Locked''),
     (424, ''failedDependency'', ''Failed Dependency''),
     (425, ''tooEarly'', ''Too Early''),
     (426, ''upgradeRequired'', ''Upgrade Required''),
     (428, ''preconditionRequired'', ''Precondition Required''),
     (429, ''tooManyRequests'', ''Too Many Requests''),
     (431, ''requestHeaderFieldsTooLarge'', ''Request Header Fields Too Large''),
     (451, ''unavailableForLegalReasons'', ''Unavailable For Legal Reasons''),
     (500, ''internalServerError'', ''Internal Server Error''),
     (501, ''notImplemented'', ''Not Implemented''),
     (502, ''badGateway'', ''Bad Gateway''),
     (503, ''serviceUnavailable'', ''Service Unavailable''),
     (504, ''gatewayTimeout'', ''Gateway Timeout''),
     (505, ''httpVersionNotSupported'', ''HTTP Version Not Supported''),
     (506, ''variantAlsoNegotiates'', ''Variant Also Negotiates''),
     (507, ''insufficientStorage'', ''Insufficient Storage''),
     (508, ''loopDetected'', ''Loop Detected''),
     (510, ''notExtended'', ''Not Extended''),
     (511, ''networkAuthenticationRequired'', ''Network Authentication Required'')
    ]"

section \<open>Notions used by the properties\<close>

text \<open>
  The wire contract of an error body: a \<open>status\<close> key is present and the \<open>message\<close> key
  holds a string. A property whose value is \<open>undefined\<close> is left out when the body is
  serialised, so it does not count as present.
\<close>

definition has_status_and_message :: "jsobj \<Rightarrow> bool" where
  "has_status_and_message body =
     ((case map_of body ''status'' of None \<Rightarrow> False | Some v \<Rightarrow> v \<noteq> JUndefined) \<and>
      (case map_of body ''message'' of Some (JStr m) \<Rightarrow> True | _ \<Rightarrow> False))"

text \<open>
  A transform that reshapes the body completely, well-typed as
  \<open>(error: HttpError) => Record<string, unknown>\<close>:
  \<open>(error) => ({ error: error.message })\<close>.
\<close>

definition error_only :: "HttpError \<Rightarrow> jsobj" where
  "error_only e = [(''error'', JStr (message e))]"

section \<open>Unfolding the tables\<close>

lemmas HttpStatusCode_defs =
  HttpStatusCode_CONTINUE_def HttpStatusCode_SWITCHING_PROTOCOLS_def
  HttpStatusCode_PROCESSING_def HttpStatusCode_EARLY_HINTS_def HttpStatusCode_OK_def
  HttpStatusCode_CREATED_def HttpStatusCode_ACCEPTED_def
  HttpStatusCode_NON_AUTHORITATIVE_INFORMATION_def HttpStatusCode_NO_CONTENT_def
  HttpStatusCode_RESET_CONTENT_def HttpStatusCode_PARTIAL_CONTENT_def
  HttpStatusCode_MULTI_STATUS_def HttpStatusCode_ALREADY_REPORTED_def
  HttpStatusCode_IM_USED_def HttpStatusCode_MULTIPLE_CHOICES_def
  HttpStatusCode_MOVED_PERMANENTLY_def HttpStatusCode_FOUND_def HttpStatusCode_SEE_OTHER_def
  HttpStatusCode_NOT_MODIFIED_def HttpStatusCode_USE_PROXY_def
  HttpStatusCode_TEMPORARY_REDIRECT_def HttpStatusCode_PERMANENT_REDIRECT_def
  HttpStatusCode_BAD_REQUEST_def HttpStatusCode_UNAUTHORIZED_def
  HttpStatusCode_PAYMENT_REQUIRED_def HttpStatusCode_FORBIDDEN_def
  HttpStatusCode_NOT_FOUND_def HttpStatusCode_METHOD_NOT_ALLOWED_def
  HttpStatusCode_NOT_ACCEPTABLE_def HttpStatusCode_PROXY_AUTHENTICATION_REQUIRED_def
  HttpStatusCode_REQUEST_TIMEOUT_def HttpStatusCode_CONFLICT_def HttpStatusCode_GONE_def
  HttpStatusCode_LENGTH_REQUIRED_def HttpStatusCode_PRECONDITION_FAILED_def
  HttpStatusCode_PAYLOAD_TOO_LARGE_def HttpStatusCode_URI_TOO_LONG_def
  HttpStatusCode_UNSUPPORTED_MEDIA_TYPE_def HttpStatusCode_RANGE_NOT_SATISFIABLE_def
  HttpStatusCode_EXPECTATION_FAILED_def HttpStatusCode_IM_A_TEAPOT_def
  HttpStatusCode_MISDIRECTED_REQUEST_def HttpStatusCode_UNPROCESSABLE_ENTITY_def
  HttpStatusCode_LOCKED_def HttpStatusCode_FAILED_DEPENDENCY_def
  HttpStatusCode_TOO_EARLY_def HttpStatusCode_UPGRADE_REQUIRED_def
  HttpStatusCode_PRECONDITION_REQUIRED_def HttpStatusCode_TOO_MANY_REQUESTS_def
  HttpStatusCode_REQUEST_HEADER_FIELDS_TOO_LARGE_def
  HttpStatusCode_UNAVAILABLE_FOR_LEGAL_REASONS_def HttpStatusCode_INTERNAL_SERVER_ERROR_def
  HttpStatusCode_NOT_IMPLEMENTED_def HttpStatusCode_BAD_GATEWAY_def
  HttpStatusCode_SERVICE_UNAVAILABLE_def HttpStatusCode_GATEWAY_TIMEOUT_def
  HttpStatusCode_HTTP_VERSION_NOT_SUPPORTED_def HttpStatusCode_VARIANT_ALSO_NEGOTIATES_def
  HttpStatusCode_INSUFFICIENT_STORAGE_def HttpStatusCode_LOOP_DETECTED_def
  HttpStatusCode_NOT_EXTENDED_def HttpStatusCode_NETWORK_AUTHENTICATION_REQUIRED_def

lemmas factory_defs =
  continueError_def switchingProtocols_def processing_def earlyHints_def ok_def created_def
  accepted_def nonAuthoritativeInformation_def noContent_def resetContent_def
  partialContent_def multiStatus_def alreadyReported_def imUsed_def multipleChoices_def
  movedPermanently_def found_def seeOther_def notModified_def useProxy_def
  temporaryRedirect_def permanentRedirect_def badRequest_def unauthorized_def
  paymentRequired_def forbidden_def notFound_def methodNotAllowed_def notAcceptable_def
  proxyAuthenticationRequired_def requestTimeout_def conflict_def gone_def
  lengthRequired_def preconditionFailed_def payloadTooLarge_def uriTooLong_def
  unsupportedMediaType_def rangeNotSatisfiable_def expectationFailed_def imATeapot_def
  misdirectedRequest_def unprocessableEntity_def locked_def failedDependency_def
  tooEarly_def upgradeRequired_def preconditionRequired_def tooManyRequests_def
  requestHeaderFieldsTooLarge_def unavailableForLegalReasons_def internalServerError_def
  notImplemented_def badGateway_def serviceUnavailable_def gatewayTimeout_def
  httpVersionNotSupported_def variantAlsoNegotiates_def insufficientStorage_def
  loopDetected_def notExtended_def networkAuthenticationRequired_def

section \<open>The error value\<close>

lemma createFactory_no_args:
  "status (createFactory s cap None None) = s \<and>
   message (createFactory s cap None None) = js_or (map_of HttpStatusMessage s) ''Unknown Error''"
  by (simp add: createFactory_def HttpError_new_def getDefaultMessage_def js_or_def Let_def)

lemma createFactory_message:
  "message (createFactory s cap msg opts) =
     (case msg of None \<Rightarrow> getDefaultMessage s
      | Some m \<Rightarrow> if m = [] then getDefaultMessage s else m)"
  by (simp add: createFactory_def HttpError_new_def js_or_def Let_def split: option.splits)

lemma createFactory_status: "status (createFactory s cap msg opts) = s"
  by (simp add: createFactory_def HttpError_new_def Let_def)

lemma table_sizes: "length factory_table = 62 \<and> length obsidian = 62"
  by (simp add: factory_table_def obsidian_def)

lemma obsidian_createFactory:
  "(n, f) \<in> set obsidian \<Longrightarrow> \<exists>s. f = createFactory s"
  unfolding obsidian_def factory_defs
  apply (simp only: set_simps insert_iff empty_iff Pair_inject)
  apply (elim disjE conjE)
  apply blast+
  done

text \<open>
  C3: for every \<open>HttpError\<close>, \<open>toJSON()\<close> returns a record with exactly these keys:
  \<open>status\<close>, holding the error's status; \<open>message\<close>, holding its message; \<open>code\<close> if
  and only if a code was supplied at construction, even the empty string; \<open>details\<close> if
  and only if details were supplied, even an empty structure. There is no other key, in
  particular no \<open>stack\<close> and no \<open>name\<close>, although the error itself has both.
\<close>

theorem toJSON_fields:
  "keys (toJSON (HttpError_new cap s m options)) =
     {''status'', ''message''}
     \<union> (if (\<exists>opt c. options = Some opt \<and> HttpErrorOptions.code opt = Some c)
        then {''code''} else {})
     \<union> (if (\<exists>opt. options = Some opt \<and> HttpErrorOptions.details opt \<noteq> JUndefined)
        then {''details''} else {})
   \<and> distinct (map fst (toJSON (HttpError_new cap s m options)))
   \<and> map_of (toJSON (HttpError_new cap s m options)) ''status'' = Some (JNum s)
   \<and> map_of (toJSON (HttpError_new cap s m options)) ''message'' = Some (JStr m)
   \<and> map_of (toJSON (HttpError_new cap s m options)) ''code'' =
       (case options of None \<Rightarrow> None | Some opt \<Rightarrow> map_option JStr (HttpErrorOptions.code opt))
   \<and> map_of (toJSON (HttpError_new cap s m options)) ''details'' =
       (case options of
          None \<Rightarrow> None
        | Some opt \<Rightarrow> if HttpErrorOptions.details opt = JUndefined then None
                      else Some (HttpErrorOptions.details opt))
   \<and> ''stack'' \<notin> keys (toJSON (HttpError_new cap s m options))
   \<and> ''name'' \<notin> keys (toJSON (HttpError_new cap s m options))
   \<and> keys (toJSON (HttpError_new cap s m
              (Some \<lparr> HttpErrorOptions.code = Some [], HttpErrorOptions.details = JObj [] \<rparr>))) =
       {''status'', ''message'', ''code'', ''details''}"
  by (auto simp: toJSON_def HttpError_new_def keys_def Let_def split: option.splits)

text \<open>
  C10: the constructor does no message defaulting and no status validation. For any
  integer status, in the table or not (999), and any message, the empty string included,
  \<open>new HttpError(status, message, options)\<close> is an error with that status and that
  message, verbatim. The default message is substituted only by the factories:
  \<open>new HttpError(404, "")\<close> has the message \<open>""\<close>, \<open>notFound("")\<close> has \<open>"Not Found"\<close>.
\<close>

theorem HttpError_new_verbatim:
  "message (HttpError_new cap s m opts) = m
   \<and> status (HttpError_new cap s m opts) = s
   \<and> status (HttpError_new cap 999 m opts) = 999
   \<and> message (HttpError_new cap 404 '''' None) = ''''
   \<and> message (notFound cap (Some '''') None) = ''Not Found''"
  by (simp add: HttpError_new_def notFound_def createFactory_def getDefaultMessage_def js_or_def
      HttpStatusMessage_def HttpStatusCode_NOT_FOUND_def Let_def)

section \<open>The factories\<close>

text \<open>
  C4: each of the 62 rows of the table of section 6 names a factory of \<open>obsidian\<close>, and
  calling that factory with no arguments yields an \<open>HttpError\<close> whose status is the row's
  status and whose message is the row's reason phrase.
\<close>

theorem factory_no_args_table:
  "(st, n, reason) \<in> set factory_table \<Longrightarrow>
     \<exists>f. map_of obsidian n = Some f
        \<and> status (f cap None None) = st
        \<and> message (f cap None None) = reason"
  unfolding factory_table_def
  apply (simp only: set_simps insert_iff empty_iff Pair_inject)
  apply (elim disjE conjE)
  apply (simp_all add: obsidian_def factory_defs createFactory_no_args HttpStatusCode_defs
      HttpStatusMessage_def js_or_def)
  done

theorem factory_no_args_table_witness:
  "(404, ''notFound'', ''Not Found'') \<in> set factory_table
   \<and> (\<exists>f. map_of obsidian ''notFound'' = Some f
          \<and> status (f None None None) = 404
          \<and> message (f None None None) = ''Not Found'')"
proof -
  have row: "(404, ''notFound'', ''Not Found'') \<in> set factory_table"
    by (simp add: factory_table_def)
  from factory_no_args_table [OF row, of None] row show ?thesis
    by blast
qed

text \<open>
  C9: for every factory of \<open>obsidian\<close> and every message the caller supplies, the error's
  message is that string, unchanged; the registry's default for the factory's status is
  used only when the message is omitted or is the empty string.
\<close>

theorem factory_custom_message:
  "(n, f) \<in> set obsidian \<Longrightarrow>
     message (f cap msg opts) =
       (case msg of
          None \<Rightarrow> getDefaultMessage (status (f cap msg opts))
        | Some m \<Rightarrow> if m = [] then getDefaultMessage (status (f cap msg opts)) else m)"
proof -
  assume "(n, f) \<in> set obsidian"
  then obtain s where f: "f = createFactory s"
    using obsidian_createFactory by blast
  show ?thesis
    unfolding f createFactory_status by (rule createFactory_message)
qed

theorem factory_custom_message_witness:
  "(''notFound'', notFound) \<in> set obsidian
   \<and> message (notFound None (Some ''User not found'') None) = ''User not found''"
proof -
  have entry: "(''notFound'', notFound) \<in> set obsidian"
    by (simp add: obsidian_def)
  from factory_custom_message [OF entry, of None "Some ''User not found''" None] entry
  show ?thesis by simp
qed

section \<open>The Express middleware\<close>

text \<open>
  C1: for every configuration of \<open>errorHandler\<close> (any \<open>includeStack\<close>, any logger,
  options given or not, any \<open>NODE_ENV\<close>) and every raised \<open>HttpError\<close>, of any integer
  status, the middleware writes exactly one response; its HTTP status is the error's
  status and its body is \<open>transform(e)\<close> when the options hold a transform and
  \<open>e.toJSON()\<close> when they hold none or are not given. The only writes to the response
  are those of the recognised branch: the 500 branch for other errors is not taken.
\<close>

theorem errorHandler_HttpError:
  "written (errorHandler env
      (Some \<lparr> includeStack = i, logger = lg, transform = Some t \<rparr>) (IsHttpError e) req) =
     [(status e, t e)]
   \<and> filter is_response_event (errorHandler env
      (Some \<lparr> includeStack = i, logger = lg, transform = Some t \<rparr>) (IsHttpError e) req) =
     [ResStatus (status e), ResJson (t e)]
   \<and> written (errorHandler env
      (Some \<lparr> includeStack = i, logger = lg, transform = None \<rparr>) (IsHttpError e) req) =
     [(status e, toJSON e)]
   \<and> filter is_response_event (errorHandler env
      (Some \<lparr> includeStack = i, logger = lg, transform = None \<rparr>) (IsHttpError e) req) =
     [ResStatus (status e), ResJson (toJSON e)]
   \<and> written (errorHandler env None (IsHttpError e) req) = [(status e, toJSON e)]
   \<and> filter is_response_event (errorHandler env None (IsHttpError e) req) =
     [ResStatus (status e), ResJson (toJSON e)]"
  by (simp add: errorHandler_def options_or_default_def written_def Let_def split: option.splits)

text \<open>
  C2: for every raised value \<open>v\<close> that is not an \<open>HttpError\<close> (a native error, any other
  object, an array or a primitive), \<open>errorHandler\<close> writes exactly one response, with
  HTTP status 500. With \<open>includeStack\<close> false the body is exactly
  \<open>{status: 500, message: "Internal Server Error"}\<close>; with \<open>includeStack\<close> true it is
  \<open>{status: 500, message: v.message, stack: v.stack}\<close>. When the option is not given
  the setting is false if \<open>NODE_ENV\<close> is \<open>production\<close> and true otherwise. For a native
  error the two properties are its message and its stack trace, the latter \<open>undefined\<close>
  when it has none; for a thrown string both are \<open>undefined\<close>.
\<close>

theorem errorHandler_other_error:
  "written (errorHandler env
      (Some \<lparr> includeStack = Some False, logger = lg, transform = tr \<rparr>) (OtherError v) req) =
     [(500, [(''status'', JNum 500), (''message'', JStr ''Internal Server Error'')])]
   \<and> written (errorHandler env
      (Some \<lparr> includeStack = Some True, logger = lg, transform = tr \<rparr>) (OtherError v) req) =
     [(500, [(''status'', JNum 500), (''message'', get_prop v ''message''),
             (''stack'', get_prop v ''stack'')])]
   \<and> written (errorHandler env
      (Some \<lparr> includeStack = None, logger = lg, transform = tr \<rparr>) (OtherError v) req) =
     [(500, if env = Some ''production''
            then [(''status'', JNum 500), (''message'', JStr ''Internal Server Error'')]
            else [(''status'', JNum 500), (''message'', get_prop v ''message''),
                  (''stack'', get_prop v ''stack'')])]
   \<and> written (errorHandler env None (OtherError v) req) =
     [(500, if env = Some ''production''
            then [(''status'', JNum 500), (''message'', JStr ''Internal Server Error'')]
            else [(''status'', JNum 500), (''message'', get_prop v ''message''),
                  (''stack'', get_prop v ''stack'')])]
   \<and> get_prop (native_error x) ''message'' = JStr (message x)
   \<and> get_prop (native_error x) ''stack'' = (case stack x of None \<Rightarrow> JUndefined | Some s \<Rightarrow> JStr s)
   \<and> written (errorHandler env
      (Some \<lparr> includeStack = Some True, logger = lg, transform = tr \<rparr>)
      (OtherError (ThrownStr s)) req) =
     [(500, [(''status'', JNum 500), (''message'', JUndefined), (''stack'', JUndefined)])]"
  by (simp add: errorHandler_def written_def options_or_default_def includeStack_or_default_def
      native_error_def Let_def split: option.splits)

text \<open>
  C5, as stated: for every raised error and every configuration, the body written has a
  \<open>status\<close> key and a \<open>message\<close> key with a string. This fails when a transform is
  configured: the body of an \<open>HttpError\<close> is then what the transform returns. With the
  transform \<open>(error) => ({ error: error.message })\<close>, \<open>notFound()\<close> is answered by
  \<open>{error: "Not Found"}\<close>, which has neither key.
\<close>

theorem errorHandler_transform_drops_keys:
  "written (errorHandler None
      (Some \<lparr> includeStack = None, logger = None, transform = Some error_only \<rparr>)
      (IsHttpError (notFound None None None)) ()) =
     [(404, [(''error'', JStr ''Not Found'')])]
   \<and> \<not> has_status_and_message [(''error'', JStr ''Not Found'')]"
  by (simp add: errorHandler_def written_def options_or_default_def error_only_def
      has_status_and_message_def notFound_def createFactory_no_args HttpStatusCode_NOT_FOUND_def
      HttpStatusMessage_def js_or_def Let_def)

text \<open>
  C5, amended: for every raised error and every configuration exactly one response is
  written. Its body has a \<open>status\<close> key and a \<open>message\<close> key holding a string in each
  of these cases: the error is an \<open>HttpError\<close> and no transform is configured (options
  without one, or no options); the error is not an \<open>HttpError\<close> and \<open>includeStack\<close> is
  false, given so or by default under \<open>NODE_ENV = production\<close>; the error is not an
  \<open>HttpError\<close> and its \<open>message\<close> property is a string, whatever the configuration.
  When a transform is configured, the body of the answer to an \<open>HttpError\<close> is exactly
  what the transform returns.
\<close>

theorem errorHandler_body_status_message:
  "(\<exists>body. written (errorHandler env
        (Some \<lparr> includeStack = i, logger = lg, transform = None \<rparr>) (IsHttpError e) req) =
        [(status e, body)] \<and> has_status_and_message body)
   \<and> (\<exists>body. written (errorHandler env None (IsHttpError e) req) = [(status e, body)]
        \<and> has_status_and_message body)
   \<and> written (errorHandler env
        (Some \<lparr> includeStack = i, logger = lg, transform = Some t \<rparr>) (IsHttpError e) req) =
        [(status e, t e)]
   \<and> (\<exists>body. written (errorHandler env
        (Some \<lparr> includeStack = Some False, logger = lg, transform = tr \<rparr>) (OtherError v) req) =
        [(500, body)] \<and> has_status_and_message body)
   \<and> (\<exists>body. written (errorHandler (Some ''production'')
        (Some \<lparr> includeStack = None, logger = lg, transform = tr \<rparr>) (OtherError v) req) =
        [(500, body)] \<and> has_status_and_message body)
   \<and> (\<exists>body. written (errorHandler (Some ''production'') None (OtherError v) req) =
        [(500, body)] \<and> has_status_and_message body)
   \<and> (get_prop v ''message'' = JStr m \<longrightarrow>
        (\<exists>body. written (errorHandler env options (OtherError v) req) = [(500, body)]
           \<and> has_status_and_message body))
   \<and> (\<exists>st body. written (errorHandler env options err req) = [(st, body)])"
proof -
  have http: "has_status_and_message (toJSON e)"
    by (simp add: toJSON_def has_status_and_message_def Let_def split: option.splits)
  have minimal: "has_status_and_message
      [(''status'', JNum 500), (''message'', JStr ''Internal Server Error'')]"
    by (simp add: has_status_and_message_def)
  have full: "get_prop v ''message'' = JStr m \<Longrightarrow> has_status_and_message
      [(''status'', JNum 500), (''message'', get_prop v ''message''),
       (''stack'', get_prop v ''stack'')]"
    by (simp add: has_status_and_message_def)
  have one: "\<exists>st body. written (errorHandler env options err req) = [(st, body)]"
    by (cases err) (simp_all add: errorHandler_def written_def Let_def split: option.splits)
  have other: "get_prop v ''message'' = JStr m \<Longrightarrow>
      \<exists>body. written (errorHandler env options (OtherError v) req) = [(500, body)]
         \<and> has_status_and_message body"
    using minimal full
    by (simp add: errorHandler_def written_def Let_def split: option.splits)
  show ?thesis
    using http minimal one other
    by (simp add: errorHandler_def written_def options_or_default_def
        includeStack_or_default_def Let_def split: option.splits)
qed

theorem errorHandler_body_status_message_witness:
  "get_prop (ThrownObj [(''message'', JStr ''boom'')]) ''message'' = JStr ''boom''
   \<and> (\<exists>body. written (errorHandler None
          (Some \<lparr> includeStack = Some True, logger = None, transform = None \<rparr>)
          (OtherError (ThrownObj [(''message'', JStr ''boom'')])) ()) = [(500, body)]
        \<and> has_status_and_message body)"
proof -
  have h: "get_prop (ThrownObj [(''message'', JStr ''boom'')]) ''message'' = JStr ''boom''"
    by simp
  have "get_prop (ThrownObj [(''message'', JStr ''boom'')]) ''message'' = JStr ''boom'' \<longrightarrow>
        (\<exists>body. written (errorHandler None
            (Some \<lparr> includeStack = Some True, logger = None, transform = None \<rparr>)
            (OtherError (ThrownObj [(''message'', JStr ''boom'')])) ()) = [(500, body)]
          \<and> has_status_and_message body)"
    using errorHandler_body_status_message
      [where v = "ThrownObj [(''message'', JStr ''boom'')]" and m = "''boom''"
         and env = None and req = "()"
         and options = "Some \<lparr> includeStack = Some True, logger = None, transform = None \<rparr>"]
    by blast
  with h show ?thesis by blast
qed

text \<open>
  C6: for every raised \<open>HttpError\<close> and any fixed logger and transform, two runs of
  \<open>errorHandler\<close> that differ only in \<open>includeStack\<close> (given as true, as false, or left to
  the default of either environment) have the same effects, hence the same status and
  body.
\<close>

theorem errorHandler_includeStack_irrelevant:
  "errorHandler env (Some (opts\<lparr>includeStack := a\<rparr>)) (IsHttpError e) req =
   errorHandler env' (Some (opts\<lparr>includeStack := b\<rparr>)) (IsHttpError e) req"
  by (simp add: errorHandler_def options_or_default_def Let_def)

text \<open>
  C7: \<open>simpleErrorHandler\<close>, which has no configuration parameter, answers an
  \<open>HttpError\<close> with exactly one response, of status \<open>err.status\<close> and body
  \<open>err.toJSON()\<close>, and does not call \<open>next\<close>; for any other raised value it writes no
  response and calls \<open>next\<close> exactly once, with that value.
\<close>

theorem simpleErrorHandler_behaviour:
  "simpleErrorHandler (IsHttpError e) req = [ResStatus (status e), ResJson (toJSON e)]
   \<and> written (simpleErrorHandler (IsHttpError e) req) = [(status e, toJSON e)]
   \<and> next_calls (simpleErrorHandler (IsHttpError e) req) = []
   \<and> simpleErrorHandler (OtherError x) req = [NextCall (OtherError x)]
   \<and> written (simpleErrorHandler (OtherError x) req) = []
   \<and> next_calls (simpleErrorHandler (OtherError x) req) = [OtherError x]"
  by (simp add: simpleErrorHandler_def written_def)

text \<open>
  C8: for every raised error, recognised or not, \<open>errorHandler\<close> with a logger in its
  options calls it exactly once, with the raw error and the request; with options that
  hold no logger, or no options, it makes no logger call. The call is all that happens
  before the first write to the response; no logger call follows, and a response is
  written.
\<close>

theorem errorHandler_logger_first:
  "logger_calls (errorHandler env
      (Some \<lparr> includeStack = i, logger = Some l, transform = tr \<rparr>) err req) = [(err, req)]
   \<and> takeWhile (\<lambda>ev. \<not> is_response_event ev) (errorHandler env
      (Some \<lparr> includeStack = i, logger = Some l, transform = tr \<rparr>) err req) =
     [LoggerCall err req]
   \<and> logger_calls (dropWhile (\<lambda>ev. \<not> is_response_event ev) (errorHandler env
      (Some \<lparr> includeStack = i, logger = Some l, transform = tr \<rparr>) err req)) = []
   \<and> written (errorHandler env
      (Some \<lparr> includeStack = i, logger = Some l, transform = tr \<rparr>) err req) \<noteq> []
   \<and> logger_calls (errorHandler env
      (Some \<lparr> includeStack = i, logger = None, transform = tr \<rparr>) err req) = []
   \<and> written (errorHandler env
      (Some \<lparr> includeStack = i, logger = None, transform = tr \<rparr>) err req) \<noteq> []
   \<and> logger_calls (errorHandler env None err req) = []
   \<and> written (errorHandler env None err req) \<noteq> []"
  by (cases err)
     (simp_all add: errorHandler_def options_or_default_def written_def Let_def
        split: option.splits)

end
